theory Spec2Isabelle
  imports Main "HOL-Library.Word" "HOL-Library.Log_Nat"
begin

chapter \<open>The text/tree synchroniser of Tauri-JSON-Editor\<close>

text \<open>
  The component (the \<^verbatim>\<open><script setup>\<close> block of \<^verbatim>\<open>App.vue\<close>) keeps a text buffer
  \<^verbatim>\<open>rawJsonInput\<close>, the last value parsed from it, \<^verbatim>\<open>displayData\<close>, and a message
  \<^verbatim>\<open>errorMessage\<close>. Everything it computes goes through the host's \<^verbatim>\<open>JSON.parse\<close> and
  \<^verbatim>\<open>JSON.stringify\<close>, so the first part of this theory is a model of the two built-ins
  as ECMAScript defines them; the second part is the component itself.
\<close>

section \<open>Strings\<close>

text \<open>
  An ECMAScript string is a sequence of 16-bit code units. \<open>js\<close> writes a literal of
  the source as such a sequence.
\<close>

type_synonym jschar = "16 word"
type_synonym jsstring = "jschar list"

definition js :: "string \<Rightarrow> jsstring" where
  "js s = map (\<lambda>c. of_nat (of_char c)) s"

text \<open>\<^verbatim>\<open>xs.join(sep)\<close> on a list of strings.\<close>

fun join :: "jsstring \<Rightarrow> jsstring list \<Rightarrow> jsstring" where
  "join sep [] = []"
| "join sep [x] = x"
| "join sep (x # y # ys) = x @ sep @ join sep (y # ys)"

text \<open>
  \<^verbatim>\<open>s.split(sep)\<close> for a separator of one code unit: the pieces between the separators,
  never an empty array. \<^verbatim>\<open>xs.pop()\<close> is the last element, \<^verbatim>\<open>undefined\<close> (\<open>None\<close>)
  on an empty array. \<^verbatim>\<open>xs.includes(x)\<close> is membership.
\<close>

fun split_str :: "jschar \<Rightarrow> jsstring \<Rightarrow> jsstring list" where
  "split_str sep [] = [[]]"
| "split_str sep (c # cs) =
     (if c = sep then [] # split_str sep cs
      else (case split_str sep cs of
              [] \<Rightarrow> [[c]]
            | p # ps \<Rightarrow> (c # p) # ps))"

definition pop :: "'a list \<Rightarrow> 'a option" where
  "pop xs = (if xs = [] then None else Some (last xs))"

definition includes_arr :: "'a list \<Rightarrow> 'a \<Rightarrow> bool" where
  "includes_arr xs x = (x \<in> set xs)"

text \<open>
  \<^verbatim>\<open>s.trim()\<close> removes the white space and line terminators of ECMAScript from both
  ends: TAB, LF, VT, FF, CR, SP, NBSP, U+1680, U+2000 to U+200A, U+2028, U+2029, U+202F,
  U+205F, U+3000 and U+FEFF.
\<close>

definition is_trim_space :: "jschar \<Rightarrow> bool" where
  "is_trim_space c =
     (c = 0x09 \<or> c = 0x0A \<or> c = 0x0B \<or> c = 0x0C \<or> c = 0x0D \<or> c = 0x20 \<or> c = 0xA0
      \<or> c = 0x1680 \<or> (0x2000 \<le> c \<and> c \<le> 0x200A) \<or> c = 0x2028 \<or> c = 0x2029
      \<or> c = 0x202F \<or> c = 0x205F \<or> c = 0x3000 \<or> c = 0xFEFF)"

definition trim :: "jsstring \<Rightarrow> jsstring" where
  "trim s = rev (dropWhile is_trim_space (rev (dropWhile is_trim_space s)))"

text \<open>\<^verbatim>\<open>s.endsWith('\0')\<close> and \<^verbatim>\<open>s.slice(0, -1)\<close>.\<close>

definition endsWith_NUL :: "jsstring \<Rightarrow> bool" where
  "endsWith_NUL s = (s \<noteq> [] \<and> last s = 0)"

definition slice_0_m1 :: "jsstring \<Rightarrow> jsstring" where
  "slice_0_m1 s = butlast s"

text \<open>Decimal digits: the code unit of a digit, and the decimal numeral of a number.\<close>

definition digit_char :: "nat \<Rightarrow> jschar" where
  "digit_char d = of_nat (48 + d)"

definition is_digit :: "jschar \<Rightarrow> bool" where
  "is_digit c = (0x30 \<le> c \<and> c \<le> 0x39)"

definition digit_val :: "jschar \<Rightarrow> nat" where
  "digit_val c = unat c - 48"

function decimal :: "nat \<Rightarrow> jsstring" where
  "decimal n = (if n < 10 then [digit_char n] else decimal (n div 10) @ [digit_char (n mod 10)])"
  by pat_completeness auto
termination
  by (relation "measure (\<lambda>n. n)") auto

declare decimal.simps [simp del]

definition digits_value :: "jsstring \<Rightarrow> nat" where
  "digits_value ds = foldl (\<lambda>a c. 10 * a + digit_val c) 0 ds"

section \<open>Numbers\<close>

text \<open>
  The Number type is IEEE 754 binary64. A finite value is written here by its sign, its
  significand and the exponent of its last bit: \<open>Finite neg m e\<close> is
  \<open>(-1)\<^sup>n\<^sup>e\<^sup>g * m * 2\<^sup>e\<close>, where a normal number has \<open>2\<^sup>5\<^sup>2 \<le> m < 2\<^sup>5\<^sup>3\<close> and
  \<open>-1074 \<le> e \<le> 971\<close>, and a subnormal one, or zero, has \<open>m < 2\<^sup>5\<^sup>2\<close> and \<open>e = -1074\<close>.
  The two zeros are one value, \<open>Finite False 0 (-1074)\<close>: \<^verbatim>\<open>===\<close> identifies them, and
  the one function of this program that reads a number, \<^verbatim>\<open>Number::toString\<close>, prints
  \<^verbatim>\<open>"0"\<close> for both.
\<close>

datatype jsnumber = NaN | Infinity bool | Finite bool nat int

definition is_double :: "nat \<Rightarrow> int \<Rightarrow> bool" where
  "is_double m e = ((2 ^ 52 \<le> m \<and> m < 2 ^ 53 \<and> - 1074 \<le> e \<and> e \<le> 971) \<or> (m < 2 ^ 52 \<and> e = - 1074))"

fun wf_number :: "jsnumber \<Rightarrow> bool" where
  "wf_number NaN = True"
| "wf_number (Infinity neg) = True"
| "wf_number (Finite neg m e) = (is_double m e \<and> (m = 0 \<longrightarrow> \<not> neg))"

fun is_finite :: "jsnumber \<Rightarrow> bool" where
  "is_finite (Finite neg m e) = True"
| "is_finite _ = False"

subsection \<open>From a decimal numeral to the nearest Number\<close>

text \<open>
  The Number value of a real is the binary64 nearest to it, a tie going to the even
  significand, and an infinity from \<open>2\<^sup>1\<^sup>0\<^sup>2\<^sup>4 - 2\<^sup>9\<^sup>7\<^sup>0\<close> on. \<open>round_ratio a b\<close> computes it for
  the ratio \<open>a / b\<close> of two naturals, with \<open>None\<close> for the infinity.
  \<open>rne_div\<close> is the quotient rounded half to even, \<open>floor_log2 a b\<close> the integer
  \<open>t\<close> with \<open>2\<^sup>t \<le> a / b < 2\<^sup>t\<^sup>+\<^sup>1\<close>: the difference of the bit lengths, or one less.
\<close>

definition round_half_even :: "nat \<Rightarrow> nat \<Rightarrow> nat \<Rightarrow> nat" where
  "round_half_even q r d =
     (if 2 * r < d then q else if d < 2 * r then Suc q else if even q then q else Suc q)"

definition rne_div :: "nat \<Rightarrow> nat \<Rightarrow> nat" where
  "rne_div n d = round_half_even (n div d) (n mod d) d"

definition ratio_ge_pow :: "nat \<Rightarrow> nat \<Rightarrow> nat \<Rightarrow> int \<Rightarrow> bool" where
  "ratio_ge_pow r a b t = (if 0 \<le> t then b * r ^ nat t \<le> a else b \<le> a * r ^ nat (- t))"

definition floor_adjust :: "nat \<Rightarrow> nat \<Rightarrow> nat \<Rightarrow> int \<Rightarrow> int" where
  "floor_adjust r a b t = (if ratio_ge_pow r a b t then t else t - 1)"

definition floor_log2 :: "nat \<Rightarrow> nat \<Rightarrow> int" where
  "floor_log2 a b = floor_adjust 2 a b (int (floorlog 2 a) - int (floorlog 2 b))"

text \<open>
  \<open>round_at a b q\<close> rounds \<open>a / b\<close> to a multiple of \<open>2\<^sup>q\<close>; \<open>normalise\<close> carries a
  significand that reached \<open>2\<^sup>5\<^sup>3\<close> into the exponent and checks the range.
\<close>

definition normalise :: "nat \<Rightarrow> int \<Rightarrow> (nat \<times> int) option" where
  "normalise m q =
     (if m = 2 ^ 53 then (if 971 < q + 1 then None else Some (2 ^ 52, q + 1))
      else if 971 < q then None else Some (m, q))"

definition round_at :: "nat \<Rightarrow> nat \<Rightarrow> int \<Rightarrow> (nat \<times> int) option" where
  "round_at a b q =
     normalise (if 0 \<le> q then rne_div a (b * 2 ^ nat q) else rne_div (a * 2 ^ nat (- q)) b) q"

definition round_ratio :: "nat \<Rightarrow> nat \<Rightarrow> (nat \<times> int) option" where
  "round_ratio a b =
     (if a = 0 then Some (0, - 1074)
      else round_at a b (max (floor_log2 a b - 52) (- 1074)))"

text \<open>The Number value of \<open>d * 10\<^sup>x\<close>.\<close>

definition dec_to_double :: "nat \<Rightarrow> int \<Rightarrow> (nat \<times> int) option" where
  "dec_to_double d x =
     (if 0 \<le> x then round_ratio (d * 10 ^ nat x) 1 else round_ratio d (10 ^ nat (- x)))"

definition to_number :: "bool \<Rightarrow> nat \<Rightarrow> int \<Rightarrow> jsnumber" where
  "to_number neg d x =
     (case dec_to_double d x of
        None \<Rightarrow> Infinity neg
      | Some (m, e) \<Rightarrow> Finite (neg \<and> m \<noteq> 0) m e)"

subsection \<open>\<^verbatim>\<open>Number::toString\<close>\<close>

text \<open>
  For a finite non-zero \<open>x\<close>, ECMAScript takes integers \<open>n\<close>, \<open>k\<close>, \<open>s\<close> with \<open>k \<ge> 1\<close>,
  \<open>10\<^sup>k\<^sup>-\<^sup>1 \<le> s < 10\<^sup>k\<close>, the Number value of \<open>s * 10\<^sup>n\<^sup>-\<^sup>k\<close> being \<open>x\<close>, and \<open>k\<close> as small
  as possible; of several \<open>s\<close> the one closest to \<open>x\<close>, and the even one of two equally
  close.

  \<open>ratio m e\<close> is \<open>m * 2\<^sup>e\<close> as a numerator and a denominator, and
  \<open>decimal_exponent a b\<close> the \<open>n\<close> with \<open>10\<^sup>n\<^sup>-\<^sup>1 \<le> a / b < 10\<^sup>n\<close>. For a number of
  digits \<open>k\<close>, \<open>candidate m e n k\<close> looks at the two multiples of \<open>10\<^sup>n\<^sup>-\<^sup>k\<close> that
  enclose \<open>m * 2\<^sup>e\<close>, \<open>lo * 10\<^sup>p\<close> and \<open>(lo + 1) * 10\<^sup>p\<close> with \<open>p = n - k\<close>, and returns the
  better of those whose Number value is \<open>m * 2\<^sup>e\<close>, as the pair of \<open>s\<close> and \<open>p\<close>;
  when the upper one is \<open>10\<^sup>k\<close> itself, \<open>carry\<close> writes it with \<open>k\<close> digits again.
\<close>

definition ratio :: "nat \<Rightarrow> int \<Rightarrow> nat \<times> nat" where
  "ratio m e = (if 0 \<le> e then (m * 2 ^ nat e, 1) else (m, 2 ^ nat (- e)))"

definition decimal_exponent :: "nat \<times> nat \<Rightarrow> int" where
  "decimal_exponent ab =
     floor_adjust 10 (fst ab) (snd ab) (int (floorlog 10 (fst ab)) - int (floorlog 10 (snd ab))) + 1"

definition scale10 :: "nat \<times> nat \<Rightarrow> int \<Rightarrow> nat \<times> nat" where
  "scale10 ab p =
     (if 0 \<le> p then (fst ab, snd ab * 10 ^ nat p) else (fst ab * 10 ^ nat (- p), snd ab))"

definition carry :: "nat \<Rightarrow> nat \<Rightarrow> int \<Rightarrow> nat \<times> int" where
  "carry k s p = (if s = 10 ^ k then (10 ^ (k - 1), p + 1) else (s, p))"

definition choose_digits ::
  "bool \<Rightarrow> bool \<Rightarrow> nat \<Rightarrow> nat \<Rightarrow> nat \<Rightarrow> nat \<Rightarrow> int \<Rightarrow> (nat \<times> int) option" where
  "choose_digits lo_ok hi_ok k lo r den p =
     (if lo_ok \<and> hi_ok then Some (carry k (round_half_even lo r den) p)
      else if lo_ok then Some (lo, p)
      else if hi_ok then Some (carry k (Suc lo) p)
      else None)"

definition candidate_at ::
  "nat \<Rightarrow> int \<Rightarrow> nat \<Rightarrow> int \<Rightarrow> nat \<Rightarrow> nat \<Rightarrow> nat \<Rightarrow> (nat \<times> int) option" where
  "candidate_at m e k p lo r den =
     choose_digits (dec_to_double lo p = Some (m, e)) (dec_to_double (Suc lo) p = Some (m, e))
       k lo r den p"

definition candidate_in :: "nat \<Rightarrow> int \<Rightarrow> nat \<Rightarrow> int \<Rightarrow> nat \<times> nat \<Rightarrow> (nat \<times> int) option" where
  "candidate_in m e k p nd = candidate_at m e k p (fst nd div snd nd) (fst nd mod snd nd) (snd nd)"

definition candidate :: "nat \<Rightarrow> int \<Rightarrow> int \<Rightarrow> nat \<Rightarrow> (nat \<times> int) option" where
  "candidate m e n k = candidate_in m e k (n - int k) (scale10 (ratio m e) (n - int k))"

fun first_some :: "('a \<Rightarrow> 'b option) \<Rightarrow> 'a list \<Rightarrow> 'b option" where
  "first_some f [] = None"
| "first_some f (x # xs) = (case f x of Some y \<Rightarrow> Some y | None \<Rightarrow> first_some f xs)"

text \<open>
  Seventeen digits are enough for every binary64, so the search stops there. The
  exact decimal expansion of \<open>m * 2\<^sup>e\<close> stands behind it and makes the function total.
\<close>

definition exact_decimal :: "nat \<Rightarrow> int \<Rightarrow> nat \<times> int" where
  "exact_decimal m e = (if 0 \<le> e then (m * 2 ^ nat e, 0) else (m * 5 ^ nat (- e), e))"

definition shortest_decimal :: "nat \<Rightarrow> int \<Rightarrow> nat \<times> int" where
  "shortest_decimal m e =
     (case first_some (candidate m e (decimal_exponent (ratio m e)))
             [1, 2, 3, 4, 5, 6, 7, 8, 9, 10, 11, 12, 13, 14, 15, 16, 17] of
        Some sp \<Rightarrow> sp
      | None \<Rightarrow> exact_decimal m e)"

text \<open>
  The digits \<open>ds\<close> of \<open>s\<close>, \<open>k\<close> of them, and \<open>n = k + p\<close> are then laid out: as an
  integer with \<open>n - k\<close> zeros when \<open>k \<le> n \<le> 21\<close>, with a decimal point inside when
  \<open>0 < n \<le> 21\<close>, after \<^verbatim>\<open>0.\<close> and \<open>-n\<close> zeros when \<open>-6 < n \<le> 0\<close>, and in exponent
  notation otherwise.
\<close>

definition exponent_part :: "int \<Rightarrow> jsstring" where
  "exponent_part ex = [0x65, if 0 \<le> ex then 0x2B else 0x2D] @ decimal (nat \<bar>ex\<bar>)"

definition layout :: "jsstring \<Rightarrow> int \<Rightarrow> jsstring" where
  "layout ds n =
     (if int (length ds) \<le> n \<and> n \<le> 21 then ds @ replicate (nat (n - int (length ds))) 0x30
      else if 0 < n \<and> n \<le> 21 then take (nat n) ds @ [0x2E] @ drop (nat n) ds
      else if - 6 < n \<and> n \<le> 0 then [0x30, 0x2E] @ replicate (nat (- n)) 0x30 @ ds
      else if length ds = 1 then ds @ exponent_part (n - 1)
      else take 1 ds @ [0x2E] @ drop 1 ds @ exponent_part (n - 1))"

definition layout_digits :: "jsstring \<Rightarrow> int \<Rightarrow> jsstring" where
  "layout_digits ds p = layout ds (int (length ds) + p)"

definition layout_decimal :: "nat \<times> int \<Rightarrow> jsstring" where
  "layout_decimal sp = layout_digits (decimal (fst sp)) (snd sp)"

fun number_to_string :: "jsnumber \<Rightarrow> jsstring" where
  "number_to_string NaN = js ''NaN''"
| "number_to_string (Infinity neg) = (if neg then js ''-Infinity'' else js ''Infinity'')"
| "number_to_string (Finite neg m e) =
     (if m = 0 then [0x30]
      else (if neg then [0x2D] else []) @ layout_decimal (shortest_decimal m e))"

section \<open>JSON values\<close>

text \<open>
  The values \<^verbatim>\<open>JSON.parse\<close> builds and \<^verbatim>\<open>JSON.stringify\<close> reads. An object is the list
  of its own properties in the order \<^verbatim>\<open>[[OwnPropertyKeys]]\<close> gives them: the array
  indices (the canonical numerals below \<open>2\<^sup>3\<^sup>2 - 1\<close>) in ascending order first, then
  the other keys in the order of their creation.
\<close>

datatype json =
    JNull
  | JBool bool
  | JNumber jsnumber
  | JString jsstring
  | JArray "json list"
  | JObject "(jsstring \<times> json) list"

definition is_array_index :: "jsstring \<Rightarrow> bool" where
  "is_array_index k =
     (k \<noteq> [] \<and> list_all is_digit k \<and> (length k = 1 \<or> hd k \<noteq> 0x30) \<and> digits_value k < 4294967295)"

text \<open>
  \<^verbatim>\<open>CreateDataProperty(O, k, v)\<close> on an ordinary object: an existing property keeps its
  place and takes the new value; a new array index goes to its place among the indices;
  any other new key goes to the end.
\<close>

fun insert_index :: "jsstring \<Rightarrow> 'v \<Rightarrow> (jsstring \<times> 'v) list \<Rightarrow> (jsstring \<times> 'v) list" where
  "insert_index k v [] = [(k, v)]"
| "insert_index k v (kv # kvs) =
     (if is_array_index (fst kv) \<and> digits_value (fst kv) < digits_value k
      then kv # insert_index k v kvs
      else (k, v) # kv # kvs)"

fun replace_value :: "jsstring \<Rightarrow> 'v \<Rightarrow> (jsstring \<times> 'v) list \<Rightarrow> (jsstring \<times> 'v) list" where
  "replace_value k v [] = []"
| "replace_value k v (kv # kvs) =
     (if fst kv = k then (k, v) # kvs else kv # replace_value k v kvs)"

definition create_data_property ::
  "(jsstring \<times> 'v) list \<Rightarrow> jsstring \<Rightarrow> 'v \<Rightarrow> (jsstring \<times> 'v) list" where
  "create_data_property kvs k v =
     (if k \<in> set (map fst kvs) then replace_value k v kvs
      else if is_array_index k then insert_index k v kvs
      else kvs @ [(k, v)])"

text \<open>
  The lists of keys an object can have: no key twice, and a key that is an array index
  only after smaller array indices.
\<close>

fun keys_ordered :: "jsstring list \<Rightarrow> bool" where
  "keys_ordered [] = True"
| "keys_ordered [k] = True"
| "keys_ordered (k # k' # ks) =
     ((\<not> is_array_index k' \<or> (is_array_index k \<and> digits_value k < digits_value k'))
      \<and> keys_ordered (k' # ks))"

definition wf_keys :: "jsstring list \<Rightarrow> bool" where
  "wf_keys ks = (distinct ks \<and> keys_ordered ks)"

text \<open>
  \<open>wf_json\<close>: a value of the language, every number a binary64 (or an infinity or
  NaN) and every object with keys as above. \<open>finite_json\<close>: no infinity and no NaN in
  it. The two together are the values that JSON texts denote.
\<close>

fun wf_json :: "json \<Rightarrow> bool" where
  "wf_json (JNumber n) = wf_number n"
| "wf_json (JArray vs) = list_all wf_json vs"
| "wf_json (JObject kvs) = (wf_keys (map fst kvs) \<and> list_all (\<lambda>kv. wf_json (snd kv)) kvs)"
| "wf_json v = True"

fun finite_json :: "json \<Rightarrow> bool" where
  "finite_json (JNumber n) = is_finite n"
| "finite_json (JArray vs) = list_all finite_json vs"
| "finite_json (JObject kvs) = list_all (\<lambda>kv. finite_json (snd kv)) kvs"
| "finite_json v = True"

definition json_representable :: "json \<Rightarrow> bool" where
  "json_representable v = (wf_json v \<and> finite_json v)"

section \<open>\<^verbatim>\<open>JSON.parse\<close>\<close>

text \<open>
  A recursive-descent reading of the JSON grammar of ECMAScript (that of ECMA-404). A
  parser takes the text still to read and returns \<open>Inr\<close> of what it read with the rest
  of the text, or \<open>Inl\<close> of the text at which it gave up.
\<close>

definition is_ws :: "jschar \<Rightarrow> bool" where
  "is_ws c = (c = 0x09 \<or> c = 0x0A \<or> c = 0x0D \<or> c = 0x20)"

definition skip_ws :: "jsstring \<Rightarrow> jsstring" where
  "skip_ws cs = dropWhile is_ws cs"

subsection \<open>Strings\<close>

definition hex_val :: "jschar \<Rightarrow> nat option" where
  "hex_val c =
     (if 0x30 \<le> c \<and> c \<le> 0x39 then Some (unat c - 48)
      else if 0x41 \<le> c \<and> c \<le> 0x46 then Some (unat c - 55)
      else if 0x61 \<le> c \<and> c \<le> 0x66 then Some (unat c - 87)
      else None)"

definition hex4 :: "jschar \<Rightarrow> jschar \<Rightarrow> jschar \<Rightarrow> jschar \<Rightarrow> jschar option" where
  "hex4 a b c d =
     (case (hex_val a, hex_val b, hex_val c, hex_val d) of
        (Some x, Some y, Some z, Some w) \<Rightarrow> Some (of_nat (((x * 16 + y) * 16 + z) * 16 + w))
      | _ \<Rightarrow> None)"

text \<open>The single-character escapes: \<^verbatim>\<open>\" \/ \\ \b \f \n \r \t\<close>.\<close>

definition unescape :: "jschar \<Rightarrow> jschar option" where
  "unescape e =
     (if e = 0x22 then Some 0x22
      else if e = 0x2F then Some 0x2F
      else if e = 0x5C then Some 0x5C
      else if e = 0x62 then Some 0x08
      else if e = 0x66 then Some 0x0C
      else if e = 0x6E then Some 0x0A
      else if e = 0x72 then Some 0x0D
      else if e = 0x74 then Some 0x09
      else None)"

definition cons_result :: "jschar \<Rightarrow> jsstring + jsstring \<times> jsstring \<Rightarrow> jsstring + jsstring \<times> jsstring" where
  "cons_result u r = (case r of Inl x \<Rightarrow> Inl x | Inr (s, rest) \<Rightarrow> Inr (u # s, rest))"

text \<open>
  \<open>parse_string\<close> reads a string from after its opening quote: up to the closing quote,
  no code unit below U+0020, a backslash only in one of the escapes.
\<close>

fun parse_string :: "jsstring \<Rightarrow> jsstring + jsstring \<times> jsstring" where
  "parse_string [] = Inl []"
| "parse_string (c # cs) =
     (if c = 0x22 then Inr ([], cs)
      else if c = 0x5C then
        (case cs of
           [] \<Rightarrow> Inl []
         | e # es \<Rightarrow>
             if e = 0x75 then
               (case es of
                  h1 # h2 # h3 # h4 # rest \<Rightarrow>
                    (case hex4 h1 h2 h3 h4 of
                       Some u \<Rightarrow> cons_result u (parse_string rest)
                     | None \<Rightarrow> Inl es)
                | _ \<Rightarrow> Inl es)
             else
               (case unescape e of
                  Some u \<Rightarrow> cons_result u (parse_string es)
                | None \<Rightarrow> Inl cs))
      else if c < 0x20 then Inl (c # cs)
      else cons_result c (parse_string cs))"

subsection \<open>Numbers\<close>

text \<open>
  \<^verbatim>\<open>-? (0 | [1-9][0-9]*) (. [0-9]+)? ([eE] [+-]? [0-9]+)?\<close>, read part by part. With the
  digits \<open>ip\<close> before the point, \<open>fp\<close> after it and the exponent \<open>ex\<close>, the value is
  the Number nearest to \<open>ip fp * 10\<^sup>e\<^sup>x\<^sup>-\<^sup>|\<^sup>f\<^sup>p\<^sup>|\<close>.
\<close>

definition number_value :: "bool \<Rightarrow> jsstring \<Rightarrow> jsstring \<Rightarrow> int \<Rightarrow> jsnumber" where
  "number_value neg ip fp ex = to_number neg (digits_value (ip @ fp)) (ex - int (length fp))"

definition parse_exp_digits ::
  "bool \<Rightarrow> jsstring \<Rightarrow> jsstring \<Rightarrow> bool \<Rightarrow> jsstring \<Rightarrow> jsstring + jsnumber \<times> jsstring" where
  "parse_exp_digits neg ip fp eneg cs =
     (if cs \<noteq> [] \<and> is_digit (hd cs)
      then Inr (number_value neg ip fp
                  ((if eneg then - 1 else 1) * int (digits_value (takeWhile is_digit cs))),
                dropWhile is_digit cs)
      else Inl cs)"

definition parse_exp :: "bool \<Rightarrow> jsstring \<Rightarrow> jsstring \<Rightarrow> jsstring \<Rightarrow> jsstring + jsnumber \<times> jsstring" where
  "parse_exp neg ip fp cs =
     (case cs of
        [] \<Rightarrow> Inr (number_value neg ip fp 0, cs)
      | c # cs' \<Rightarrow>
          if c = 0x65 \<or> c = 0x45 then
            (case cs' of
               [] \<Rightarrow> Inl []
             | d # ds \<Rightarrow>
                 if d = 0x2B then parse_exp_digits neg ip fp False ds
                 else if d = 0x2D then parse_exp_digits neg ip fp True ds
                 else parse_exp_digits neg ip fp False cs')
          else Inr (number_value neg ip fp 0, cs))"

definition parse_frac :: "bool \<Rightarrow> jsstring \<Rightarrow> jsstring \<Rightarrow> jsstring + jsnumber \<times> jsstring" where
  "parse_frac neg ip cs =
     (case cs of
        [] \<Rightarrow> parse_exp neg ip [] cs
      | c # cs' \<Rightarrow>
          if c = 0x2E then
            (if cs' \<noteq> [] \<and> is_digit (hd cs')
             then parse_exp neg ip (takeWhile is_digit cs') (dropWhile is_digit cs')
             else Inl cs')
          else parse_exp neg ip [] cs)"

definition parse_int :: "bool \<Rightarrow> jsstring \<Rightarrow> jsstring + jsnumber \<times> jsstring" where
  "parse_int neg cs =
     (case cs of
        [] \<Rightarrow> Inl []
      | c # cs' \<Rightarrow>
          if c = 0x30 then parse_frac neg [c] cs'
          else if is_digit c then parse_frac neg (takeWhile is_digit cs) (dropWhile is_digit cs)
          else Inl cs)"

definition parse_number :: "jsstring \<Rightarrow> jsstring + jsnumber \<times> jsstring" where
  "parse_number cs =
     (case cs of
        [] \<Rightarrow> Inl []
      | c # cs' \<Rightarrow> if c = 0x2D then parse_int True cs' else parse_int False cs)"

subsection \<open>Values\<close>

text \<open>\<open>parse_literal w v cs\<close> reads the word \<open>w\<close>, one of \<^verbatim>\<open>true\<close>, \<^verbatim>\<open>false\<close>, \<^verbatim>\<open>null\<close>.\<close>

fun strip_prefix :: "jsstring \<Rightarrow> jsstring \<Rightarrow> jsstring + jsstring" where
  "strip_prefix [] cs = Inr cs"
| "strip_prefix (w # ws) [] = Inl []"
| "strip_prefix (w # ws) (c # cs) = (if c = w then strip_prefix ws cs else Inl (c # cs))"

definition parse_literal :: "jsstring \<Rightarrow> json \<Rightarrow> jsstring \<Rightarrow> jsstring + json \<times> jsstring" where
  "parse_literal w v cs = (case strip_prefix w cs of Inl r \<Rightarrow> Inl r | Inr rest \<Rightarrow> Inr (v, rest))"

lemma length_skip_ws: "length (skip_ws cs) \<le> length cs"
  by (simp add: skip_ws_def length_dropWhile_le)

lemma length_cons_result:
  "cons_result u r = Inr (s, rest) \<Longrightarrow> \<exists>s'. r = Inr (s', rest)"
  by (auto simp: cons_result_def split: sum.splits)

lemma length_parse_string: "parse_string cs = Inr (s, rest) \<Longrightarrow> length rest \<le> length cs"
proof (induction cs arbitrary: s rule: parse_string.induct)
  case 1
  then show ?case by simp
next
  case (2 c cs)
  show ?case
  proof (cases "c = 0x22")
    case True
    with "2.prems" show ?thesis by simp
  next
    case quote: False
    show ?thesis
    proof (cases "c = 0x5C")
      case False
      with quote "2.prems" obtain s' where "parse_string cs = Inr (s', rest)" "\<not> c < 0x20"
        by (auto split: if_splits dest: length_cons_result)
      with "2.IH"(3) [of s'] quote False show ?thesis by simp
    next
      case True
      then obtain e es where cs: "cs = e # es"
        using "2.prems" by (cases cs) auto
      show ?thesis
      proof (cases "e = 0x75")
        case False
        with cs True "2.prems" obtain u s' where "unescape e = Some u" "parse_string es = Inr (s', rest)"
          by (auto split: option.splits dest: length_cons_result)
        with "2.IH"(2) [of e es u s'] cs True False show ?thesis by simp
      next
        case u: True
        with cs True "2.prems" obtain h1 h2 h3 h4 r u' s'
          where es: "es = h1 # h2 # h3 # h4 # r" "hex4 h1 h2 h3 h4 = Some u'"
            "parse_string r = Inr (s', rest)"
          by (auto split: list.splits option.splits dest: length_cons_result)
        with "2.IH"(1) [of e es h1 _ h2 _ h3 _ h4 r u' s'] quote cs True u
        have "length rest \<le> length r" by simp
        with es cs show ?thesis by simp
      qed
    qed
  qed
qed

text \<open>
  A value, the elements of an array after its bracket, and the members of an object
  after its brace. The list read so far is the first argument of the last two. Before
  going on to the next element or member they check that the value just read took
  some text, which it always does.
\<close>

function parse_value :: "jsstring \<Rightarrow> jsstring + json \<times> jsstring"
  and parse_elems :: "json list \<Rightarrow> jsstring \<Rightarrow> jsstring + json \<times> jsstring"
  and parse_members :: "(jsstring \<times> json) list \<Rightarrow> jsstring \<Rightarrow> jsstring + json \<times> jsstring"
where
  "parse_value [] = Inl []"
| "parse_value (c # cs) =
     (if c = 0x7B then
        (case skip_ws cs of
           [] \<Rightarrow> Inl []
         | d # ds \<Rightarrow> if d = 0x7D then Inr (JObject [], ds) else parse_members [] (d # ds))
      else if c = 0x5B then
        (case skip_ws cs of
           [] \<Rightarrow> Inl []
         | d # ds \<Rightarrow> if d = 0x5D then Inr (JArray [], ds) else parse_elems [] (d # ds))
      else if c = 0x22 then
        (case parse_string cs of Inl r \<Rightarrow> Inl r | Inr (s, rest) \<Rightarrow> Inr (JString s, rest))
      else if c = 0x2D \<or> is_digit c then
        (case parse_number (c # cs) of Inl r \<Rightarrow> Inl r | Inr (n, rest) \<Rightarrow> Inr (JNumber n, rest))
      else if c = 0x74 then parse_literal (js ''true'') (JBool True) (c # cs)
      else if c = 0x66 then parse_literal (js ''false'') (JBool False) (c # cs)
      else if c = 0x6E then parse_literal (js ''null'') JNull (c # cs)
      else Inl (c # cs))"
| "parse_elems acc cs =
     (case parse_value cs of
        Inl r \<Rightarrow> Inl r
      | Inr (v, rest) \<Rightarrow>
          if length rest < length cs then
            (case skip_ws rest of
               [] \<Rightarrow> Inl []
             | d # ds \<Rightarrow>
                 if d = 0x2C then parse_elems (acc @ [v]) (skip_ws ds)
                 else if d = 0x5D then Inr (JArray (acc @ [v]), ds)
                 else Inl (d # ds))
          else Inl rest)"
| "parse_members acc cs =
     (case cs of
        [] \<Rightarrow> Inl []
      | c # cs' \<Rightarrow>
          if c = 0x22 then
            (case parse_string cs' of
               Inl r \<Rightarrow> Inl r
             | Inr (k, rest) \<Rightarrow>
                 (case skip_ws rest of
                    [] \<Rightarrow> Inl []
                  | d # ds \<Rightarrow>
                      if d = 0x3A then
                        (case parse_value (skip_ws ds) of
                           Inl r \<Rightarrow> Inl r
                         | Inr (v, rest') \<Rightarrow>
                             if length rest' < length cs then
                               (case skip_ws rest' of
                                  [] \<Rightarrow> Inl []
                                | d' # ds' \<Rightarrow>
                                    if d' = 0x2C
                                    then parse_members (create_data_property acc k v) (skip_ws ds')
                                    else if d' = 0x7D
                                    then Inr (JObject (create_data_property acc k v), ds')
                                    else Inl (d' # ds'))
                             else Inl rest')
                      else Inl (d # ds)))
          else Inl cs)"
  by pat_completeness auto
termination
proof (relation "measure (\<lambda>x. case x of
    Inl cs \<Rightarrow> 2 * length cs
  | Inr (Inl (acc, cs)) \<Rightarrow> 2 * length cs + 1
  | Inr (Inr (acc, cs)) \<Rightarrow> 2 * length cs + 1)", goal_cases)
  case 1
  show ?case by simp
next
  case (2 c cs d ds)
  with length_skip_ws [of cs] show ?case by simp
next
  case (3 c cs d ds)
  with length_skip_ws [of cs] show ?case by simp
next
  case (4 acc cs)
  show ?case by simp
next
  case (5 acc cs x v rest d ds)
  with length_skip_ws [of rest] length_skip_ws [of ds] show ?case by simp
next
  case (6 acc cs c cs' x k rest d ds)
  with length_skip_ws [of rest] length_skip_ws [of ds] length_parse_string [of cs' k rest]
  show ?case by simp
next
  case (7 acc cs c cs' x k rest d ds y v rest' d' ds')
  with length_skip_ws [of rest'] length_skip_ws [of ds'] show ?case by simp
qed

declare parse_elems.simps [simp del] parse_members.simps [simp del]

subsection \<open>The text\<close>

text \<open>
  \<^verbatim>\<open>JSON.parse(text)\<close>: one value between optional white space, or a \<^verbatim>\<open>SyntaxError\<close>.
  The wording of the message is the engine's own; it is written here as V8 words it,
  from the place where the parser gave up, and it is never empty.
\<close>

datatype syntax_error = SyntaxError (message: jsstring)

definition syntax_error_at :: "jsstring \<Rightarrow> jsstring \<Rightarrow> syntax_error" where
  "syntax_error_at text r =
     SyntaxError
       (if r = [] then js ''Unexpected end of JSON input''
        else js ''Unexpected token '' @ [hd r] @ js '' in JSON at position ''
               @ decimal (length text - length r))"

definition JSON_parse :: "jsstring \<Rightarrow> syntax_error + json" where
  "JSON_parse text =
     (case parse_value (skip_ws text) of
        Inl r \<Rightarrow> Inl (syntax_error_at text r)
      | Inr (v, rest) \<Rightarrow>
          if skip_ws rest = [] then Inr v else Inl (syntax_error_at text (skip_ws rest)))"

section \<open>\<^verbatim>\<open>JSON.stringify\<close>\<close>

text \<open>
  \<^verbatim>\<open>QuoteJSONString\<close>: the string between quotes, with the two-character escapes for
  backspace, tab, line feed, form feed, carriage return, the quote and the backslash, and
  \<^verbatim>\<open>\uXXXX\<close> in lower-case digits for the other code units below U+0020 and for a
  surrogate that is not half of a pair.
\<close>

definition is_lead :: "jschar \<Rightarrow> bool" where
  "is_lead c = (0xD800 \<le> c \<and> c \<le> 0xDBFF)"

definition is_trail :: "jschar \<Rightarrow> bool" where
  "is_trail c = (0xDC00 \<le> c \<and> c \<le> 0xDFFF)"

definition hex_digit :: "nat \<Rightarrow> jschar" where
  "hex_digit d = (if d < 10 then of_nat (48 + d) else of_nat (87 + d))"

definition unicode_escape :: "jschar \<Rightarrow> jsstring" where
  "unicode_escape c =
     [0x5C, 0x75, hex_digit (unat c div 4096), hex_digit (unat c div 256 mod 16),
      hex_digit (unat c div 16 mod 16), hex_digit (unat c mod 16)]"

definition quote_unit :: "jschar \<Rightarrow> jsstring" where
  "quote_unit c =
     (if c = 0x08 then [0x5C, 0x62]
      else if c = 0x09 then [0x5C, 0x74]
      else if c = 0x0A then [0x5C, 0x6E]
      else if c = 0x0C then [0x5C, 0x66]
      else if c = 0x0D then [0x5C, 0x72]
      else if c = 0x22 then [0x5C, 0x22]
      else if c = 0x5C then [0x5C, 0x5C]
      else if c < 0x20 then unicode_escape c
      else [c])"

fun quote_units :: "jsstring \<Rightarrow> jsstring" where
  "quote_units [] = []"
| "quote_units [c] = (if is_lead c \<or> is_trail c then unicode_escape c else quote_unit c)"
| "quote_units (c # d # cs) =
     (if is_lead c \<and> is_trail d then c # d # quote_units cs
      else if is_lead c \<or> is_trail c then unicode_escape c @ quote_units (d # cs)
      else quote_unit c @ quote_units (d # cs))"

definition QuoteJSONString :: "jsstring \<Rightarrow> jsstring" where
  "QuoteJSONString s = [0x22] @ quote_units s @ [0x22]"

text \<open>
  \<^verbatim>\<open>SerializeJSONArray\<close> and \<^verbatim>\<open>SerializeJSONObject\<close> put the serialised elements or
  members between their brackets: nothing for none, commas between them when the gap is
  empty, and otherwise each on a line of its own behind the indentation, which grows by
  the gap at each level. A member is the quoted key, a colon, a space when there is a
  gap, and the value. A number that is not finite is written \<^verbatim>\<open>null\<close>.
\<close>

definition brackets :: "jschar \<Rightarrow> jschar \<Rightarrow> jsstring \<Rightarrow> jsstring \<Rightarrow> jsstring list \<Rightarrow> jsstring" where
  "brackets l r gap stepback parts =
     (if parts = [] then [l, r]
      else if gap = [] then [l] @ join [0x2C] parts @ [r]
      else [l, 0x0A] @ (stepback @ gap) @ join ([0x2C, 0x0A] @ (stepback @ gap)) parts
             @ [0x0A] @ stepback @ [r])"

definition member :: "jsstring \<Rightarrow> jsstring \<Rightarrow> jsstring \<Rightarrow> jsstring" where
  "member gap k str = QuoteJSONString k @ [0x3A] @ (if gap = [] then [] else [0x20]) @ str"

fun SerializeJSONProperty :: "jsstring \<Rightarrow> jsstring \<Rightarrow> json \<Rightarrow> jsstring" where
  "SerializeJSONProperty gap indent JNull = js ''null''"
| "SerializeJSONProperty gap indent (JBool b) = (if b then js ''true'' else js ''false'')"
| "SerializeJSONProperty gap indent (JNumber n) =
     (if is_finite n then number_to_string n else js ''null'')"
| "SerializeJSONProperty gap indent (JString s) = QuoteJSONString s"
| "SerializeJSONProperty gap indent (JArray vs) =
     brackets 0x5B 0x5D gap indent (map (SerializeJSONProperty gap (indent @ gap)) vs)"
| "SerializeJSONProperty gap indent (JObject kvs) =
     brackets 0x7B 0x7D gap indent
       (map (\<lambda>kv. member gap (fst kv) (SerializeJSONProperty gap (indent @ gap) (snd kv))) kvs)"

text \<open>
  \<^verbatim>\<open>JSON.stringify(value, null, space)\<close> for a number \<open>space\<close>: the gap is that many
  spaces, ten at most. \<^verbatim>\<open>JSON.stringify(value)\<close> is the case \<open>space = 0\<close>.
\<close>

definition JSON_stringify :: "json \<Rightarrow> nat \<Rightarrow> jsstring" where
  "JSON_stringify v space = SerializeJSONProperty (replicate (min 10 space) 0x20) [] v"

section \<open>The component\<close>

text \<open>
  The reactive variables of the component that the functions below read or write. The
  others (font sizes, panel visibility, the flags of the tree widget, the background
  colour) are written by their own buttons only and read by the template only.
\<close>

record state =
  rawJsonInput :: jsstring
  displayData :: json
  errorMessage :: jsstring
  isFormatMode :: bool
  defaultPath :: jsstring

definition fileExtensions :: "jsstring list" where
  "fileExtensions = [js ''json'', js ''txt'']"

definition sample :: jsstring where
  \<open>sample = join [0x0A]
     [js ''{'',
      js ''  "name": "Tauri-JSON-Editor",'',
      js ''  "version": "1.0.0",'',
      js ''  "isAwesome": true,'',
      js ''  "features": ['',
      js ''    "Real-time JSON validation",'',
      js ''    "Pretty formatting"'',
      js ''  ],'',
      js ''  "details": {'',
      js ''    "level": 1,'',
      js ''    "active": null'',
      js ''  }'',
      js ''}'']\<close>

text \<open>The set-up of the script: the refs with their initial values, and the first parse.\<close>

definition init_state :: state where
  "init_state =
     \<lparr> rawJsonInput = sample,
       displayData =
         (case JSON_parse sample of
            Inr parsed \<Rightarrow> parsed
          | Inl error \<Rightarrow> JObject [(js ''error'', JString (js ''Invalid initial JSON''))]),
       errorMessage = [],
       isFormatMode = False,
       defaultPath = js ''untitled.json'' \<rparr>"

subsection \<open>Event handlers\<close>

definition handleEdit :: "json \<Rightarrow> state \<Rightarrow> state" where
  "handleEdit newData s = s\<lparr>rawJsonInput := JSON_stringify newData 2\<rparr>"

definition handleRawJsonInputChange :: "jsstring \<Rightarrow> state \<Rightarrow> state" where
  "handleRawJsonInputChange newInput s =
     (case JSON_parse newInput of
        Inr parsed \<Rightarrow> s\<lparr>displayData := parsed, errorMessage := []\<rparr>
      | Inl error \<Rightarrow> s\<lparr>errorMessage := message error\<rparr>)"

text \<open>\<^verbatim>\<open>_toggleFormat(isFormatMode)\<close>; the flag is the function's parameter.\<close>

definition toggleFormat :: "bool \<Rightarrow> state \<Rightarrow> state" where
  "toggleFormat isFormatMode' s =
     (case JSON_parse (rawJsonInput s) of
        Inr parsed \<Rightarrow>
          s\<lparr>rawJsonInput :=
               (if \<not> isFormatMode' then JSON_stringify parsed 2 else JSON_stringify parsed 0),
            errorMessage := []\<rparr>
      | Inl error \<Rightarrow> s\<lparr>errorMessage := js ''Invalid JSON: '' @ message error\<rparr>)"

definition toggleFormatMinify :: "state \<Rightarrow> state" where
  "toggleFormatMinify s =
     toggleFormat (\<not> isFormatMode s) (s\<lparr>isFormatMode := \<not> isFormatMode s\<rparr>)"

text \<open>
  The first version of the component has a button for each direction; its
  \<^verbatim>\<open>error\<close> is the later \<^verbatim>\<open>errorMessage\<close>.
\<close>

definition formatJson :: "state \<Rightarrow> state" where
  "formatJson s =
     (case JSON_parse (rawJsonInput s) of
        Inr parsed \<Rightarrow> s\<lparr>rawJsonInput := JSON_stringify parsed 2, errorMessage := []\<rparr>
      | Inl e \<Rightarrow> s\<lparr>errorMessage := js ''Invalid JSON: '' @ message e\<rparr>)"

definition minifyJson :: "state \<Rightarrow> state" where
  "minifyJson s =
     (case JSON_parse (rawJsonInput s) of
        Inr parsed \<Rightarrow> s\<lparr>rawJsonInput := JSON_stringify parsed 0, errorMessage := []\<rparr>
      | Inl e \<Rightarrow> s\<lparr>errorMessage := js ''Invalid JSON: '' @ message e\<rparr>)"

subsection \<open>Files\<close>

text \<open>
  The plug-ins are parameters: \<open>readTextFileLines path\<close> is the lines of the file or
  \<open>Inl\<close> of the error it throws, \<open>writeTextFile path text\<close> returns or throws, and
  the answer of a dialog is a path, \<^verbatim>\<open>null\<close> (\<open>None\<close>) when it was dismissed, or an
  error. An error is given by the text \<^verbatim>\<open>`${error}`\<close> makes of it.

  \<open>falsy\<close> is \<^verbatim>\<open>!filePath\<close>; \<open>or_empty\<close> is \<^verbatim>\<open>fileExtension || ''\<close>; \<open>template\<close> is
  \<^verbatim>\<open>`${fileExtension}`\<close>.
\<close>

type_synonym reader = "jsstring \<Rightarrow> jsstring + jsstring list"
type_synonym writer = "jsstring \<Rightarrow> jsstring \<Rightarrow> jsstring + unit"

definition falsy :: "jsstring option \<Rightarrow> bool" where
  "falsy x = (case x of None \<Rightarrow> True | Some str \<Rightarrow> str = [])"

definition or_empty :: "jsstring option \<Rightarrow> jsstring" where
  "or_empty x = (if falsy x then [] else the x)"

definition template :: "jsstring option \<Rightarrow> jsstring" where
  "template x = (case x of None \<Rightarrow> js ''undefined'' | Some str \<Rightarrow> str)"

definition read_lines :: "jsstring list \<Rightarrow> jsstring" where
  "read_lines lines =
     foldl (\<lambda>parsed line.
              parsed @ (if endsWith_NUL line then slice_0_m1 line else line) @ [0x0A])
       [] lines"

definition displayJSON :: "reader \<Rightarrow> jsstring option \<Rightarrow> state \<Rightarrow> state" where
  "displayJSON readTextFileLines filePath s =
     (if falsy filePath then s\<lparr>errorMessage := js ''file extension is null.''\<rparr>
      else if \<not> includes_arr fileExtensions (or_empty (pop (split_str 0x2E (the filePath))))
      then s\<lparr>errorMessage :=
               js ''Unsupported file type: '' @ template (pop (split_str 0x2E (the filePath)))\<rparr>
      else
        (case readTextFileLines (the filePath) of
           Inl error \<Rightarrow> s
         | Inr lines \<Rightarrow>
             toggleFormat (isFormatMode s) (s\<lparr>rawJsonInput := trim (read_lines lines)\<rparr>)))"

definition openFile :: "reader \<Rightarrow> jsstring option \<Rightarrow> state \<Rightarrow> state" where
  "openFile readTextFileLines filePath s = displayJSON readTextFileLines filePath s"

text \<open>The listener of \<^verbatim>\<open>tauri://drag-drop\<close>, on the paths of the event.\<close>

definition dragDrop :: "reader \<Rightarrow> jsstring list \<Rightarrow> state \<Rightarrow> state" where
  "dragDrop readTextFileLines paths s =
     (case paths of
        [] \<Rightarrow> s
      | path # _ \<Rightarrow> displayJSON readTextFileLines (Some path) (s\<lparr>defaultPath := path\<rparr>))"

definition saveFile :: "writer \<Rightarrow> jsstring + jsstring option \<Rightarrow> state \<Rightarrow> state" where
  "saveFile writeTextFile answer s =
     (case answer of
        Inl error \<Rightarrow> s\<lparr>errorMessage := js ''Error saving file: '' @ error\<rparr>
      | Inr filePath \<Rightarrow>
          if falsy filePath then s\<lparr>errorMessage := js ''No file path selected.''\<rparr>
          else
            (case writeTextFile (the filePath) (rawJsonInput s) of
               Inl error \<Rightarrow> s\<lparr>errorMessage := js ''Error saving file: '' @ error\<rparr>
             | Inr u \<Rightarrow>
                 s\<lparr>errorMessage := js ''File saved successfully!'', defaultPath := the filePath\<rparr>))"

subsection \<open>Events\<close>

text \<open>
  \<^verbatim>\<open>watch(rawJsonInput, handleRawJsonInputChange)\<close>: after a handler has run, the
  callback is called with the new text if the text is no longer what it was.
  \<open>step\<close> is one event of the interface, handler and watcher: typing in the text
  area (\<^verbatim>\<open>v-model\<close> assigns the text), an edit in the tree, the format and minify
  actions, the toggle button, opening, dropping and saving a file.
\<close>

definition watch_rawJsonInput :: "state \<Rightarrow> state \<Rightarrow> state" where
  "watch_rawJsonInput old s =
     (if rawJsonInput s \<noteq> rawJsonInput old then handleRawJsonInputChange (rawJsonInput s) s else s)"

datatype event =
    TextInput jsstring
  | TreeEdit json
  | Format
  | Minify
  | ToggleFormatMinify
  | OpenFile "jsstring option"
  | DragDrop "jsstring list"
  | SaveFile "jsstring + jsstring option"

fun handler :: "reader \<Rightarrow> writer \<Rightarrow> event \<Rightarrow> state \<Rightarrow> state" where
  "handler rd wr (TextInput newText) s = s\<lparr>rawJsonInput := newText\<rparr>"
| "handler rd wr (TreeEdit newData) s = handleEdit newData s"
| "handler rd wr Format s = toggleFormat False s"
| "handler rd wr Minify s = toggleFormat True s"
| "handler rd wr ToggleFormatMinify s = toggleFormatMinify s"
| "handler rd wr (OpenFile filePath) s = openFile rd filePath s"
| "handler rd wr (DragDrop paths) s = dragDrop rd paths s"
| "handler rd wr (SaveFile answer) s = saveFile wr answer s"

definition step :: "reader \<Rightarrow> writer \<Rightarrow> event \<Rightarrow> state \<Rightarrow> state" where
  "step rd wr ev s = watch_rawJsonInput s (handler rd wr ev s)"

text \<open>The run of a list of events, and the texts the buffer held after each of them.\<close>

fun run :: "reader \<Rightarrow> writer \<Rightarrow> event list \<Rightarrow> state \<Rightarrow> state" where
  "run rd wr [] s = s"
| "run rd wr (ev # evs) s = run rd wr evs (step rd wr ev s)"

fun texts :: "reader \<Rightarrow> writer \<Rightarrow> event list \<Rightarrow> state \<Rightarrow> jsstring list" where
  "texts rd wr [] s = [rawJsonInput s]"
| "texts rd wr (ev # evs) s = rawJsonInput s # texts rd wr evs (step rd wr ev s)"

subsection \<open>Notions of the specification\<close>

text \<open>
  The extension of a path, as the properties below speak of it: the text after the last
  full stop, and the whole path when it has none.
\<close>

definition after_last_dot :: "jsstring \<Rightarrow> jsstring" where
  "after_last_dot path = rev (takeWhile (\<lambda>c. c \<noteq> 0x2E) (rev path))"

text \<open>A file system on which every write succeeds, and one with a single file.\<close>

definition write_ok :: writer where
  "write_ok path text = Inr ()"

definition one_file :: "jsstring list \<Rightarrow> reader" where
  "one_file lines path = Inr lines"

text \<open>
  What \<^verbatim>\<open>JSON.stringify\<close> makes of a value, as a value again: an infinity or NaN has
  become \<^verbatim>\<open>null\<close>.
\<close>

fun nulled :: "json \<Rightarrow> json" where
  "nulled (JNumber n) = (if is_finite n then JNumber n else JNull)"
| "nulled (JArray vs) = JArray (map nulled vs)"
| "nulled (JObject kvs) = JObject (map (\<lambda>kv. (fst kv, nulled (snd kv))) kvs)"
| "nulled v = v"

text \<open>
  The layout of \<open>brackets\<close>, named for the proofs: the white space after the opening
  bracket and each comma, and the white space before the closing bracket. A serialised
  value is followed by the end of the text, a comma, a closing bracket or white space
  (\<open>delimited\<close>), and begins with one of the characters of \<open>value_start\<close>.
\<close>

definition open_ws :: "jsstring \<Rightarrow> jsstring \<Rightarrow> jsstring" where
  "open_ws gap stepback = (if gap = [] then [] else [0x0A] @ stepback @ gap)"

definition close_ws :: "jsstring \<Rightarrow> jsstring \<Rightarrow> jsstring" where
  "close_ws gap stepback = (if gap = [] then [] else [0x0A] @ stepback)"

definition delimited :: "jsstring \<Rightarrow> bool" where
  "delimited rest =
     (case rest of [] \<Rightarrow> True | c # cs \<Rightarrow> c = 0x2C \<or> c = 0x5D \<or> c = 0x7D \<or> is_ws c)"

definition value_start :: "jschar \<Rightarrow> bool" where
  "value_start c =
     (c = 0x7B \<or> c = 0x5B \<or> c = 0x22 \<or> c = 0x2D \<or> is_digit c \<or> c = 0x74 \<or> c = 0x66 \<or> c = 0x6E)"

definition spaces :: "jsstring \<Rightarrow> bool" where
  "spaces w = list_all is_ws w"

chapter \<open>Properties\<close>

section \<open>Evaluation\<close>

text \<open>Rules that let the simplifier run the definitions on literals.\<close>

lemma floorlog_0 [simp]: "floorlog b 0 = 0"
  by (simp add: floorlog_def)

lemma floorlog_1 [simp]: "floorlog b (Suc 0) = (if 1 < b then 1 else 0)"
  by (simp add: floorlog_def)

lemma floorlog_numeral [simp]:
  "floorlog b (numeral n) = (if 1 < b then floorlog b (numeral n div b) + 1 else 0)"
  by (subst compute_floorlog) simp

lemma decimal_digit: "n < 10 \<Longrightarrow> decimal n = [digit_char n]"
  by (subst decimal.simps) simp

lemma decimal_numeral [simp]:
  "decimal (numeral n) =
     (if numeral n < (10::nat) then [digit_char (numeral n)]
      else decimal (numeral n div 10) @ [digit_char (numeral n mod 10)])"
  by (subst decimal.simps) simp

lemma decimal_0 [simp]: "decimal 0 = [0x30]"
  by (simp add: decimal_digit digit_char_def)

lemma decimal_1 [simp]: "decimal (Suc 0) = [0x31]"
  by (simp add: decimal_digit digit_char_def)

lemmas number_eval =
  dec_to_double_def round_ratio_def round_at_def normalise_def floor_log2_def floor_adjust_def
  ratio_ge_pow_def rne_div_def round_half_even_def to_number_def

lemmas parse_eval =
  JSON_parse_def skip_ws_def is_ws_def js_def parse_elems.simps parse_members.simps
  parse_literal_def parse_number_def parse_int_def parse_frac_def parse_exp_def
  parse_exp_digits_def number_value_def digits_value_def digit_val_def is_digit_def
  cons_result_def unescape_def hex4_def hex_val_def create_data_property_def is_array_index_def
  syntax_error_at_def

lemma to_number_1: "to_number False (Suc 0) 0 = Finite False 4503599627370496 (- 52)"
  by (simp add: number_eval)

section \<open>The extension of a path\<close>

lemma split_str_nonempty: "split_str sep cs \<noteq> []"
  by (induction cs) (auto split: list.splits)

lemma split_str_no_sep: "sep \<notin> set cs \<Longrightarrow> split_str sep cs = [cs]"
  by (induction cs) auto

lemma split_str_single: "split_str sep cs = [p] \<Longrightarrow> sep \<notin> set cs"
proof (induction cs arbitrary: p)
  case Nil
  then show ?case by simp
next
  case (Cons c cs)
  then show ?case
    using split_str_nonempty [of sep cs] by (auto split: if_splits list.splits)
qed

lemma last_split_str:
  "last (split_str sep cs) = rev (takeWhile (\<lambda>c. c \<noteq> sep) (rev cs))"
proof (induction cs)
  case Nil
  show ?case by simp
next
  case (Cons c cs)
  show ?case
  proof (cases "c = sep")
    case True
    with Cons split_str_nonempty [of sep cs] show ?thesis
      by (simp add: takeWhile_append)
  next
    case False
    obtain p ps where sp: "split_str sep cs = p # ps"
      using split_str_nonempty [of sep cs] by (cases "split_str sep cs") auto
    show ?thesis
    proof (cases "ps = []")
      case True
      with sp have "sep \<notin> set cs" by (auto dest: split_str_single)
      with False show ?thesis by (simp add: split_str_no_sep takeWhile_append)
    next
      case ne: False
      with sp have "sep \<in> set cs" using split_str_no_sep [of sep cs] by auto
      with Cons sp ne False show ?thesis by (auto simp: takeWhile_append)
    qed
  qed
qed

text \<open>\<^verbatim>\<open>filePath.split('.').pop()\<close> is the extension in the sense above.\<close>

lemma pop_split_str: "pop (split_str 0x2E path) = Some (after_last_dot path)"
  by (simp add: pop_def split_str_nonempty last_split_str after_last_dot_def)

lemma after_last_dot_no_dot: "0x2E \<notin> set path \<Longrightarrow> after_last_dot path = path"
proof -
  assume "0x2E \<notin> set path"
  then have "takeWhile (\<lambda>c. c \<noteq> 0x2E) (rev path) = rev path"
    by (intro takeWhile_eq_all_conv [THEN iffD2]) auto
  then show ?thesis
    unfolding after_last_dot_def by (simp only: rev_rev_ident)
qed

lemma after_last_dot_append:
  "0x2E \<notin> set ext \<Longrightarrow> after_last_dot (stem @ [0x2E] @ ext) = ext"
  by (simp add: after_last_dot_def takeWhile_append)

lemma falsy_Some: "falsy (Some path) = (path = [])"
  by (simp add: falsy_def)

lemma or_empty_Some: "or_empty (Some x) = x"
  by (simp add: or_empty_def falsy_def)

lemma displayJSON_falsy:
  "falsy filePath \<Longrightarrow>
   displayJSON rd filePath s = s\<lparr>errorMessage := js ''file extension is null.''\<rparr>"
  by (simp add: displayJSON_def)

lemma displayJSON_unsupported:
  assumes "path \<noteq> []"
    and "after_last_dot path \<noteq> js ''json''" and "after_last_dot path \<noteq> js ''txt''"
  shows "displayJSON rd (Some path) s =
    s\<lparr>errorMessage := js ''Unsupported file type: '' @ after_last_dot path\<rparr>"
  using assms
  by (simp add: displayJSON_def falsy_Some pop_split_str or_empty_Some includes_arr_def
      fileExtensions_def template_def)

lemma displayJSON_supported:
  assumes "after_last_dot path = js ''json'' \<or> after_last_dot path = js ''txt''"
  shows "displayJSON rd (Some path) s =
    (case rd path of
       Inl error \<Rightarrow> s
     | Inr lines \<Rightarrow> toggleFormat (isFormatMode s) (s\<lparr>rawJsonInput := trim (read_lines lines)\<rparr>))"
proof -
  from assms have "path \<noteq> []"
    by (auto simp: js_def after_last_dot_def)
  with assms show ?thesis
    by (auto simp: displayJSON_def falsy_Some pop_split_str or_empty_Some includes_arr_def
        fileExtensions_def)
qed

section \<open>Messages\<close>

lemma js_append: "js (a @ b) = js a @ js b"
  by (simp add: js_def)


section \<open>The claims about single operations\<close>

text \<open>
  C2. For every text \<open>T\<close> that is valid JSON, the handler of a text change,
  \<^verbatim>\<open>handleRawJsonInputChange(T)\<close>, sets \<^verbatim>\<open>displayData\<close> to the parse of \<open>T\<close> and
  \<^verbatim>\<open>errorMessage\<close> to the empty string; so does typing \<open>T\<close> into the text area.
\<close>

theorem valid_text_sets_display_and_clears_message:
  assumes "JSON_parse T = Inr v"
  shows "displayData (handleRawJsonInputChange T s) = v
    \<and> errorMessage (handleRawJsonInputChange T s) = []
    \<and> (T \<noteq> rawJsonInput s \<longrightarrow>
         step rd wr (TextInput T) s = s\<lparr>rawJsonInput := T, displayData := v, errorMessage := []\<rparr>)"
  using assms by (simp add: handleRawJsonInputChange_def step_def watch_rawJsonInput_def)

theorem valid_text_sets_display_and_clears_message_witness:
  "JSON_parse (js ''[true, false]'') = Inr (JArray [JBool True, JBool False])
   \<and> displayData (handleRawJsonInputChange (js ''[true, false]'') init_state)
       = JArray [JBool True, JBool False]
   \<and> errorMessage (handleRawJsonInputChange (js ''[true, false]'') init_state) = []"
proof -
  have p: "JSON_parse (js ''[true, false]'') = Inr (JArray [JBool True, JBool False])"
    by (simp add: parse_eval)
  from valid_text_sets_display_and_clears_message [OF p, of init_state] p show ?thesis
    by blast
qed



text \<open>
  C5. When \<^verbatim>\<open>rawJsonInput\<close> does not parse, format and minify (\<^verbatim>\<open>_toggleFormat\<close> with
  either flag, and \<^verbatim>\<open>formatJson\<close> and \<^verbatim>\<open>minifyJson\<close> of the first version) set
  \<^verbatim>\<open>errorMessage\<close> to \<^verbatim>\<open>Invalid JSON: \<close> followed by the parser's message and change
  nothing else; the text is as it was, so the watcher does not run either.
\<close>

theorem format_minify_failure_is_atomic:
  assumes "JSON_parse (rawJsonInput s) = Inl e"
  shows "toggleFormat b s = s\<lparr>errorMessage := js ''Invalid JSON: '' @ message e\<rparr>
    \<and> formatJson s = s\<lparr>errorMessage := js ''Invalid JSON: '' @ message e\<rparr>
    \<and> minifyJson s = s\<lparr>errorMessage := js ''Invalid JSON: '' @ message e\<rparr>
    \<and> step rd wr Format s = s\<lparr>errorMessage := js ''Invalid JSON: '' @ message e\<rparr>
    \<and> step rd wr Minify s = s\<lparr>errorMessage := js ''Invalid JSON: '' @ message e\<rparr>
    \<and> rawJsonInput (step rd wr ToggleFormatMinify s) = rawJsonInput s
    \<and> errorMessage (step rd wr ToggleFormatMinify s) = js ''Invalid JSON: '' @ message e"
  using assms
  by (simp add: toggleFormat_def formatJson_def minifyJson_def step_def watch_rawJsonInput_def
      toggleFormatMinify_def)

theorem format_minify_failure_is_atomic_witness:
  \<open>JSON_parse (rawJsonInput (init_state\<lparr>rawJsonInput := js ''{"a":1''\<rparr>))
     = Inl (SyntaxError (js ''Unexpected end of JSON input''))
   \<and> toggleFormat False (init_state\<lparr>rawJsonInput := js ''{"a":1''\<rparr>)
     = init_state\<lparr>rawJsonInput := js ''{"a":1'',
         errorMessage := js ''Invalid JSON: '' @ js ''Unexpected end of JSON input''\<rparr>\<close>
proof -
  have p: \<open>JSON_parse (rawJsonInput (init_state\<lparr>rawJsonInput := js ''{"a":1''\<rparr>))
      = Inl (SyntaxError (js ''Unexpected end of JSON input''))\<close>
    by (simp add: parse_eval to_number_1)
  from format_minify_failure_is_atomic [OF p, of False] p show ?thesis
    by simp
qed

section \<open>Opening a file\<close>

text \<open>
  C8. A path offered for opening, by the dialog (\<^verbatim>\<open>openFile\<close>) or by a drop, is a
  non-empty string. \<^verbatim>\<open>displayJSON\<close> reads the file exactly when the extension of the
  path is \<^verbatim>\<open>json\<close> or \<^verbatim>\<open>txt\<close>; for any other extension the file is not read, and
  \<^verbatim>\<open>errorMessage\<close> becomes \<^verbatim>\<open>Unsupported file type\<close>, a colon and the extension. The drop
  sets \<^verbatim>\<open>defaultPath\<close> to the path first, in both cases.
\<close>

theorem open_accepts_only_json_and_txt:
  assumes "path \<noteq> []"
  shows "if after_last_dot path = js ''json'' \<or> after_last_dot path = js ''txt''
    then openFile rd (Some path) s =
           (case rd path of
              Inl error \<Rightarrow> s
            | Inr lines \<Rightarrow>
                toggleFormat (isFormatMode s) (s\<lparr>rawJsonInput := trim (read_lines lines)\<rparr>))
       \<and> dragDrop rd (path # others) s = openFile rd (Some path) (s\<lparr>defaultPath := path\<rparr>)
    else openFile rd (Some path) s =
           s\<lparr>errorMessage := js ''Unsupported file type'' @ js '': '' @ after_last_dot path\<rparr>
       \<and> dragDrop rd (path # others) s =
           s\<lparr>defaultPath := path,
             errorMessage := js ''Unsupported file type'' @ js '': '' @ after_last_dot path\<rparr>"
proof (cases "after_last_dot path = js ''json'' \<or> after_last_dot path = js ''txt''")
  case True
  then show ?thesis
    by (simp add: openFile_def dragDrop_def displayJSON_supported)
next
  case False
  with assms show ?thesis
    by (simp add: openFile_def dragDrop_def displayJSON_unsupported js_append [symmetric])
qed

theorem open_accepts_only_json_and_txt_witness:
  "js ''notes.md'' \<noteq> []
   \<and> openFile (one_file [js ''[1]'']) (Some (js ''notes.md'')) init_state
       = init_state\<lparr>errorMessage := js ''Unsupported file type: md''\<rparr>
   \<and> js ''data.txt'' \<noteq> []
   \<and> openFile (one_file [js ''[ true ]'']) (Some (js ''data.txt'')) init_state
       = init_state\<lparr>rawJsonInput := JSON_stringify (JArray [JBool True]) 2, errorMessage := []\<rparr>"
proof -
  have ne: "js ''notes.md'' \<noteq> []" "js ''data.txt'' \<noteq> []"
    by (simp_all add: js_def)
  have ext: "after_last_dot (js ''notes.md'') = js ''md''" "after_last_dot (js ''data.txt'') = js ''txt''"
    by (simp_all add: after_last_dot_def js_def)
  have neq: "js ''md'' \<noteq> js ''json''" "js ''md'' \<noteq> js ''txt''"
    by (simp_all add: js_def)
  have tr: "trim (read_lines [js ''[ true ]'']) = js ''[ true ]''"
    by (simp add: trim_def read_lines_def endsWith_NUL_def is_trim_space_def js_def)
  have p: "JSON_parse (js ''[ true ]'') = Inr (JArray [JBool True])"
    by (simp add: parse_eval)
  have fm: "isFormatMode init_state = False"
    by (simp add: init_state_def)
  from open_accepts_only_json_and_txt [OF ne(1), of "one_file [js ''[1]'']" init_state]
    open_accepts_only_json_and_txt [OF ne(2), of "one_file [js ''[ true ]'']" init_state]
    ne ext neq tr p fm
  show ?thesis
    by (simp add: one_file_def toggleFormat_def js_append [symmetric])
qed

text \<open>
  C10. When the text after the last full stop of the path is not exactly \<^verbatim>\<open>json\<close> or
  \<^verbatim>\<open>txt\<close>, \<^verbatim>\<open>displayJSON\<close> changes \<^verbatim>\<open>errorMessage\<close> and nothing else, whatever the
  files are: \<^verbatim>\<open>rawJsonInput\<close> and \<^verbatim>\<open>displayData\<close> stay. A path without a full stop is
  its own extension, and the comparison is by code units, so \<^verbatim>\<open>.JSON\<close> is refused.
\<close>

theorem displayJSON_refusal_sets_only_the_message:
  assumes "after_last_dot path \<noteq> js ''json''" and "after_last_dot path \<noteq> js ''txt''"
  shows "displayJSON rd (Some path) s =
      s\<lparr>errorMessage :=
          (if path = [] then js ''file extension is null.''
           else js ''Unsupported file type: '' @ after_last_dot path)\<rparr>
    \<and> rawJsonInput (displayJSON rd (Some path) s) = rawJsonInput s
    \<and> displayData (displayJSON rd (Some path) s) = displayData s
    \<and> (0x2E \<notin> set path \<longrightarrow> after_last_dot path = path)
    \<and> after_last_dot (stem @ js ''.JSON'') \<noteq> js ''json''
    \<and> after_last_dot (stem @ js ''.JSON'') \<noteq> js ''txt''"
proof -
  have "displayJSON rd (Some path) s =
      s\<lparr>errorMessage :=
          (if path = [] then js ''file extension is null.''
           else js ''Unsupported file type: '' @ after_last_dot path)\<rparr>"
    using assms by (simp add: displayJSON_unsupported displayJSON_falsy falsy_Some)
  moreover have "after_last_dot (stem @ js ''.JSON'') = js ''JSON''"
    using after_last_dot_append [of "js ''JSON''" stem] by (simp add: js_def)
  moreover have "js ''JSON'' \<noteq> js ''json''" "js ''JSON'' \<noteq> js ''txt''"
    by (simp_all add: js_def)
  ultimately show ?thesis
    by (simp add: after_last_dot_no_dot)
qed

theorem displayJSON_refusal_sets_only_the_message_witness:
  "after_last_dot (js ''README'') \<noteq> js ''json'' \<and> after_last_dot (js ''README'') \<noteq> js ''txt''
   \<and> displayJSON (one_file [js ''[1]'']) (Some (js ''README'')) init_state
       = init_state\<lparr>errorMessage := js ''Unsupported file type: README''\<rparr>"
proof -
  have ext: "after_last_dot (js ''README'') = js ''README''"
    by (simp add: after_last_dot_def js_def)
  have neq: "js ''README'' \<noteq> js ''json''" "js ''README'' \<noteq> js ''txt''" "js ''README'' \<noteq> []"
    by (simp_all add: js_def)
  from displayJSON_refusal_sets_only_the_message
    [of "js ''README''" "one_file [js ''[1]'']" init_state] ext neq
  show ?thesis
    by (simp add: js_append [symmetric])
qed

section \<open>Strings are read back\<close>

lemma hex_val_hex_digit: "d < 16 \<Longrightarrow> hex_val (hex_digit d) = Some d"
proof -
  assume "d < 16"
  then have "d = 0 \<or> d = 1 \<or> d = 2 \<or> d = 3 \<or> d = 4 \<or> d = 5 \<or> d = 6 \<or> d = 7 \<or> d = 8
      \<or> d = 9 \<or> d = 10 \<or> d = 11 \<or> d = 12 \<or> d = 13 \<or> d = 14 \<or> d = 15"
    by arith
  then show ?thesis
    by (elim disjE) (simp_all add: hex_val_def hex_digit_def)
qed

lemma hex_digits_value:
  fixes n :: nat
  shows "((n div 4096 * 16 + n div 256 mod 16) * 16 + n div 16 mod 16) * 16 + n mod 16 = n"
proof -
  have "n div 4096 = n div 256 div 16" "n div 256 = n div 16 div 16"
    by (simp_all add: div_mult2_eq [symmetric])
  then have "n div 4096 * 16 + n div 256 mod 16 = n div 256"
    and "n div 256 * 16 + n div 16 mod 16 = n div 16"
    by simp_all
  then show ?thesis
    by simp
qed

lemma hex4_unicode_escape:
  "hex4 (hex_digit (unat c div 4096)) (hex_digit (unat c div 256 mod 16))
     (hex_digit (unat c div 16 mod 16)) (hex_digit (unat c mod 16)) = Some c"
proof -
  have "unat c < 2 ^ LENGTH(16)"
    by (rule unsigned_less)
  then have "unat c < 65536"
    by simp
  then have "unat c div 4096 < 16"
    by simp
  then have "hex4 (hex_digit (unat c div 4096)) (hex_digit (unat c div 256 mod 16))
      (hex_digit (unat c div 16 mod 16)) (hex_digit (unat c mod 16))
    = Some (of_nat (((unat c div 4096 * 16 + unat c div 256 mod 16) * 16 + unat c div 16 mod 16) * 16
        + unat c mod 16))"
    by (simp add: hex4_def hex_val_hex_digit del: of_nat_add of_nat_mult)
  also have "\<dots> = Some (of_nat (unat c))"
    by (simp only: hex_digits_value)
  finally show ?thesis
    by simp
qed

lemma parse_string_quote: "parse_string (0x22 # cs) = Inr ([], cs)"
  by simp

lemma parse_string_plain:
  "c \<noteq> 0x22 \<Longrightarrow> c \<noteq> 0x5C \<Longrightarrow> \<not> c < 0x20 \<Longrightarrow>
   parse_string (c # cs) = cons_result c (parse_string cs)"
  by simp

lemma parse_string_escape:
  "unescape e = Some u \<Longrightarrow> e \<noteq> 0x75 \<Longrightarrow>
   parse_string (0x5C # e # cs) = cons_result u (parse_string cs)"
  by simp

lemma parse_string_unicode:
  "hex4 h1 h2 h3 h4 = Some u \<Longrightarrow>
   parse_string (0x5C # 0x75 # h1 # h2 # h3 # h4 # cs) = cons_result u (parse_string cs)"
  by simp

lemma parse_unicode_escape:
  "parse_string (unicode_escape c @ cs) = cons_result c (parse_string cs)"
  using parse_string_unicode [OF hex4_unicode_escape [of c], of cs]
  by (simp add: unicode_escape_def)

lemma parse_quote_unit:
  "parse_string (quote_unit c @ cs) = cons_result c (parse_string cs)"
proof -
  consider "c = 0x08" | "c = 0x09" | "c = 0x0A" | "c = 0x0C" | "c = 0x0D" | "c = 0x22" | "c = 0x5C"
    | "c \<noteq> 0x08" "c \<noteq> 0x09" "c \<noteq> 0x0A" "c \<noteq> 0x0C" "c \<noteq> 0x0D" "c \<noteq> 0x22" "c \<noteq> 0x5C"
    by blast
  then show ?thesis
  proof cases
    case 8
    show ?thesis
    proof (cases "c < 0x20")
      case True
      with 8 show ?thesis
        by (simp add: quote_unit_def parse_unicode_escape)
    next
      case False
      with 8 show ?thesis
        by (simp add: quote_unit_def parse_string_plain del: parse_string.simps)
    qed
  qed (simp_all add: quote_unit_def unescape_def)
qed

lemma surrogate_plain:
  assumes "is_lead c \<or> is_trail c"
  shows "parse_string (c # cs) = cons_result c (parse_string cs)"
proof -
  from assms have "0xD800 \<le> unat c"
    by (auto simp: is_lead_def is_trail_def word_le_nat_alt)
  then have "c \<noteq> 0x22" "c \<noteq> 0x5C" "\<not> c < 0x20"
    by (auto simp: word_less_nat_alt)
  then show ?thesis
    by (rule parse_string_plain)
qed

lemma cons_result_Inr: "cons_result u (Inr (s, rest)) = Inr (u # s, rest)"
  by (simp add: cons_result_def)

text \<open>A quoted string is read back as the string.\<close>

lemma parse_quoted:
  "parse_string (quote_units s @ 0x22 # rest) = Inr (s, rest)"
proof (induction s rule: quote_units.induct)
  case 1
  show ?case by simp
next
  case (2 c)
  show ?case
    by (simp add: parse_unicode_escape parse_quote_unit cons_result_Inr del: parse_string.simps)
       (simp add: cons_result_Inr)
next
  case (3 c d cs)
  show ?case
  proof (cases "is_lead c \<and> is_trail d")
    case True
    with 3 show ?thesis
      by (simp add: surrogate_plain cons_result_Inr del: parse_string.simps)
  next
    case False
    with 3 have IH: "parse_string (quote_units (d # cs) @ 0x22 # rest) = Inr (d # cs, rest)"
      by blast
    show ?thesis
    proof (cases "is_lead c \<or> is_trail c")
      case True
      with False have "quote_units (c # d # cs) = unicode_escape c @ quote_units (d # cs)"
        by auto
      with IH show ?thesis
        by (simp add: parse_unicode_escape cons_result_Inr del: parse_string.simps quote_units.simps)
    next
      case neither: False
      with False have "quote_units (c # d # cs) = quote_unit c @ quote_units (d # cs)"
        by auto
      with IH show ?thesis
        by (simp add: parse_quote_unit cons_result_Inr del: parse_string.simps quote_units.simps)
    qed
  qed
qed

end
